theory Spec2Isabelle
  imports Main "HOL-Library.Finite_Map"
begin

section \<open>JavaScript values\<close>

text \<open>
  The module \<^verbatim>\<open>context/api/utils/sorting.js\<close> branches on the dynamic shape of its
  arguments, so the values it receives are modelled as one datatype. A plain object is
  a finite map from the names of its own properties to their values: the module never
  depends on the order of the keys. Values are finite trees, as sort directives built
  from JSON are. The payload of a number is never inspected by the module.
  \<open>JOtherObject\<close> stands for any object that is neither a plain object, nor an array,
  nor a wrapped string (a function, a class instance, a date), identified by its
  reference. Properties are ordinary own data properties.

  The prototype of a \<open>JObject\<close> is the default one (\<^verbatim>\<open>Object.prototype\<close>, or none:
  the module cannot tell the two apart). \<open>JObjectWithProto own proto\<close> is an object
  with the own properties \<open>own\<close> whose prototype has been replaced by the object
  \<open>proto\<close>. Such an object arises only as a result, when a copy made by lodash
  assigns an object to the key \<^verbatim>\<open>__proto__\<close>; as an argument it is treated like any
  other object that is not plain.
\<close>

datatype js_value =
    JUndefined
  | JNull
  | JBoolean bool
  | JNumber int
  | JString string
  | JArray "js_value list"
  | JObject "(string, js_value) fmap"
  | JOtherObject nat
  | JObjectWithProto "(string, js_value) fmap" js_value

type_synonym js_object = "(string, js_value) fmap"

section \<open>The lodash functions the module calls\<close>

text \<open>
  lodash is an external library; the module runs on lodash 3 (3.10.1).
  \<^verbatim>\<open>_.isString\<close> and \<^verbatim>\<open>_.isPlainObject\<close> are type tests.
\<close>

fun isString :: "js_value \<Rightarrow> bool" where
  "isString (JString s) = True"
| "isString v = False"

fun isPlainObject :: "js_value \<Rightarrow> bool" where
  "isPlainObject (JObject m) = True"
| "isPlainObject v = False"

text \<open>
  \<^verbatim>\<open>_.mapValues\<close> and \<^verbatim>\<open>_.assign\<close> of lodash 3 fill a fresh object \<^verbatim>\<open>{}\<close> by plain
  assignment, \<^verbatim>\<open>result[key] = value\<close>, once for every own key of the object they
  copy from. The object under construction is a pair: its own properties, and the
  object that has replaced its prototype, if any.

  A plain assignment creates or overwrites an own property, for every key but
  \<^verbatim>\<open>__proto__\<close>. That key is an accessor inherited from \<^verbatim>\<open>Object.prototype\<close>: assigning
  an object to it replaces the prototype, assigning \<^verbatim>\<open>null\<close> removes the prototype,
  assigning anything else does nothing. No own property named \<^verbatim>\<open>__proto__\<close> is
  created in any of the three cases.
\<close>

type_synonym js_target = "js_object \<times> js_value option"

definition emptyObject :: js_target where
  "emptyObject = (fmempty, None)"

fun isObject :: "js_value \<Rightarrow> bool" where
  "isObject (JArray xs) = True"
| "isObject (JObject m) = True"
| "isObject (JOtherObject r) = True"
| "isObject (JObjectWithProto own proto) = True"
| "isObject v = False"

definition setProperty :: "string \<Rightarrow> js_value \<Rightarrow> js_target \<Rightarrow> js_target" where
  "setProperty key val target =
     (if key = ''__proto__''
      then (if isObject val then (fst target, Some val)
            else if val = JNull then (fst target, None)
            else target)
      else (fmupd key val (fst target), snd target))"

text \<open>
  Copying every own property of a source by plain assignment. Assignments to
  different keys do not interfere, so the order in which the keys are visited does not
  matter: the keys other than \<^verbatim>\<open>__proto__\<close> become own properties, and an own
  \<^verbatim>\<open>__proto__\<close> key of the source goes through the accessor. A source has the key at
  most once, and the literal \<^verbatim>\<open>{order: ...}\<close> does not have it, so the accessor runs at
  most once for each object the module builds.
\<close>

definition copyOwnProperties :: "js_object \<Rightarrow> js_target \<Rightarrow> js_target" where
  "copyOwnProperties source target =
     (let copied = (fst target ++\<^sub>f fmdrop ''__proto__'' source, snd target)
      in case fmlookup source ''__proto__'' of
           None \<Rightarrow> copied
         | Some val \<Rightarrow> setProperty ''__proto__'' val copied)"

text \<open>
  \<^verbatim>\<open>_.mapValues(object, iteratee)\<close>: a fresh object receives, for every own key of
  \<open>object\<close>, the iteratee's result for the value under that key.
  \<^verbatim>\<open>_.assign(object, ...sources)\<close>: the own properties of each source are copied onto
  \<open>object\<close>, from left to right, later sources overwriting earlier ones.
\<close>

definition mapValues :: "js_object \<Rightarrow> (js_value \<Rightarrow> js_value) \<Rightarrow> js_target" where
  "mapValues object iteratee = copyOwnProperties (fmmap iteratee object) emptyObject"

definition assign :: "js_target \<Rightarrow> js_object list \<Rightarrow> js_target" where
  "assign object sources = fold copyOwnProperties sources object"

text \<open>The finished object, as a value.\<close>

fun objectValue :: "js_target \<Rightarrow> js_value" where
  "objectValue (own, None) = JObject own"
| "objectValue (own, Some proto) = JObjectWithProto own proto"

text \<open>
  Reading a property of a plain object: \<^verbatim>\<open>object.key\<close> is \<^verbatim>\<open>undefined\<close> when the
  object has no such property. The module reads \<^verbatim>\<open>order\<close> only, which the default
  prototype does not define.
\<close>

definition property :: "js_object \<Rightarrow> string \<Rightarrow> js_value" where
  "property object key = (case fmlookup object key of None \<Rightarrow> JUndefined | Some v \<Rightarrow> v)"

section \<open>The first sortable field\<close>

text \<open>
  An index pattern, as far as the module reads it: \<^verbatim>\<open>indexPattern.fields.byName\<close> maps
  a field name to the field's metadata, of which only the \<^verbatim>\<open>sortable\<close> flag is read.
\<close>

record field =
  sortable :: bool

record field_list =
  byName :: "(string, field) fmap"

record index_pattern =
  fields' :: field_list

definition META_FIELD_NAMES :: "string list" where
  "META_FIELD_NAMES = [''_seq_no'', ''_doc'', ''_uid'']"

text \<open>\<^verbatim>\<open>Array.prototype.includes\<close> on an array of strings.\<close>

definition includes_str :: "string list \<Rightarrow> string \<Rightarrow> bool" where
  "includes_str xs x = (x \<in> set xs)"

text \<open>
  \<^verbatim>\<open>array[0]\<close>: the first element, or \<^verbatim>\<open>undefined\<close> (here \<open>None\<close>) when the array
  is empty. JavaScript does not raise on an index out of range.
\<close>

definition first_element :: "'a list \<Rightarrow> 'a option" where
  "first_element xs = (case xs of [] \<Rightarrow> None | x # _ \<Rightarrow> Some x)"

text \<open>
  \<^verbatim>\<open>(indexPattern.fields.byName[fieldName] || { sortable: false }).sortable\<close>: a
  missing entry is \<^verbatim>\<open>undefined\<close>, which is falsy, so the default object is read.
\<close>

definition getFirstSortableField :: "index_pattern \<Rightarrow> string list \<Rightarrow> string option" where
  "getFirstSortableField indexPattern fieldNames =
     (let sortableFields =
            filter
              (\<lambda>fieldName.
                 includes_str META_FIELD_NAMES fieldName
                 \<or> sortable
                     (case fmlookup (byName (fields' indexPattern)) fieldName of
                        None \<Rightarrow> \<lparr>sortable = False\<rparr>
                      | Some f \<Rightarrow> f))
              fieldNames
      in first_element sortableFields)"

text \<open>
  The specification's notion of a qualifying candidate, in its own words: the name is
  one of the three meta fields, or the schema has an entry for it whose sortable flag
  is true.
\<close>

definition spec_sortable :: "index_pattern \<Rightarrow> string \<Rightarrow> bool" where
  "spec_sortable indexPattern fieldName =
     (fieldName = ''_seq_no'' \<or> fieldName = ''_doc'' \<or> fieldName = ''_uid''
      \<or> (\<exists>f. fmlookup (byName (fields' indexPattern)) fieldName = Some f \<and> sortable f))"

section \<open>Reversing a sort directive\<close>

text \<open>
  \<^verbatim>\<open>reverseSortDirection\<close> calls itself on the \<^verbatim>\<open>order\<close> property of a plain object.
  The value read there is a proper part of the object (or \<^verbatim>\<open>undefined\<close>), so the
  recursion ends on every value. This is the value the function computes when the
  call stack is deep enough for the recursion.
\<close>

function (sequential) reverseSortDirection :: "js_value \<Rightarrow> js_value" where
  "reverseSortDirection (JObject sortDirection) =
     objectValue
       (assign emptyObject
          [sortDirection,
           fmupd ''order'' (reverseSortDirection (property sortDirection ''order'')) fmempty])"
| "reverseSortDirection sortDirection =
     (if sortDirection = JString ''asc'' then JString ''desc'' else JString ''asc'')"
  by pat_completeness auto
termination
proof (relation "measure size")
  show "wf (measure (size :: js_value \<Rightarrow> nat))"
    by simp
next
  fix sortDirection :: js_object
  show "(property sortDirection ''order'', JObject sortDirection) \<in> measure size"
  proof (cases "fmlookup sortDirection ''order''")
    case None
    then show ?thesis
      by (simp add: property_def)
  next
    case (Some v)
    then have "(''order'', v) \<in> fset (fset_of_fmap sortDirection)"
      by (simp add: fset_of_fmap_iff')
    then have "(case (''order'', v) of (a, b) \<Rightarrow> Suc (size b))
                 \<le> (\<Sum>x\<in>fset (fset_of_fmap sortDirection). case x of (a, b) \<Rightarrow> Suc (size b))"
      by (intro member_le_sum) simp_all
    with Some show ?thesis
      by (simp add: property_def case_prod_unfold)
  qed
qed

text \<open>
  An object literal with a computed key defines an own property whatever the key is,
  \<^verbatim>\<open>__proto__\<close> included, so the string branch builds its object directly.
\<close>

fun reverseSortDirective :: "js_value \<Rightarrow> js_value" where
  "reverseSortDirective (JString sortDirective) =
     JObject
       (fmupd sortDirective
          (if sortDirective = ''_score'' then JString ''asc'' else JString ''desc'')
          fmempty)"
| "reverseSortDirective (JObject sortDirective) =
     objectValue (mapValues sortDirective reverseSortDirection)"
| "reverseSortDirective sortDirective = sortDirective"

subsection \<open>The call stack\<close>

text \<open>
  A JavaScript engine bounds the call stack, and a call that does not fit throws
  \<^verbatim>\<open>RangeError\<close>. The recursion of \<^verbatim>\<open>reverseSortDirection\<close> is not a tail call and has
  no guard, so every level of nested \<^verbatim>\<open>order\<close> objects holds one more activation.
  The bound depends on the engine and is a parameter here: \<open>frames\<close> is the number of
  nested activations of \<^verbatim>\<open>reverseSortDirection\<close> that still fit. Nothing in the
  module or in lodash catches the error.
\<close>

datatype js_error = RangeError

fun reverseSortDirection_call :: "nat \<Rightarrow> js_value \<Rightarrow> js_error + js_value" where
  "reverseSortDirection_call 0 sortDirection = Inl RangeError"
| "reverseSortDirection_call (Suc frames) (JObject sortDirection) =
     (case reverseSortDirection_call frames (property sortDirection ''order'') of
        Inl e \<Rightarrow> Inl e
      | Inr reversed \<Rightarrow>
          Inr (objectValue
                 (assign emptyObject [sortDirection, fmupd ''order'' reversed fmempty])))"
| "reverseSortDirection_call (Suc frames) sortDirection =
     Inr (if sortDirection = JString ''asc'' then JString ''desc'' else JString ''asc'')"

text \<open>
  \<^verbatim>\<open>_.mapValues\<close> with an iteratee that may throw: the first error ends the copy.
  \<^verbatim>\<open>RangeError\<close> is the only error there is.
\<close>

definition mapValues_call ::
  "js_object \<Rightarrow> (js_value \<Rightarrow> js_error + js_value) \<Rightarrow> js_error + js_target" where
  "mapValues_call object iteratee =
     (if fmpred (\<lambda>key val. \<not> isl (iteratee val)) object
      then Inr (mapValues object (\<lambda>val. projr (iteratee val)))
      else Inl RangeError)"

fun reverseSortDirective_call :: "nat \<Rightarrow> js_value \<Rightarrow> js_error + js_value" where
  "reverseSortDirective_call frames (JString sortDirective) =
     Inr (JObject
            (fmupd sortDirective
               (if sortDirective = ''_score'' then JString ''asc'' else JString ''desc'')
               fmempty))"
| "reverseSortDirective_call frames (JObject sortDirective) =
     (case mapValues_call sortDirective (reverseSortDirection_call frames) of
        Inl e \<Rightarrow> Inl e
      | Inr result \<Rightarrow> Inr (objectValue result))"
| "reverseSortDirective_call frames sortDirective = Inr sortDirective"

subsection \<open>Nested options structures\<close>

text \<open>
  Following the \<^verbatim>\<open>order\<close> property \<open>n\<close> levels down into a value; \<open>None\<close> when a
  level on the way is not a plain object.
\<close>

fun order_chain :: "nat \<Rightarrow> js_value \<Rightarrow> js_value option" where
  "order_chain 0 v = Some v"
| "order_chain (Suc n) (JObject m) = order_chain n (property m ''order'')"
| "order_chain (Suc n) v = None"

text \<open>
  \<open>nest [m1, ..., mn] v\<close> is the options object \<open>m1\<close> whose \<^verbatim>\<open>order\<close> property is the
  options object \<open>m2\<close>, and so on down to \<open>mn\<close>, whose \<^verbatim>\<open>order\<close> property is \<open>v\<close>.
\<close>

fun nest :: "js_object list \<Rightarrow> js_value \<Rightarrow> js_value" where
  "nest [] v = v"
| "nest (m # ms) v = JObject (fmupd ''order'' (nest ms v) m)"

text \<open>The own properties of an object value, whatever its prototype.\<close>

fun ownProperties :: "js_value \<Rightarrow> js_object" where
  "ownProperties (JObject own) = own"
| "ownProperties (JObjectWithProto own proto) = own"
| "ownProperties v = fmempty"

section \<open>Basic facts\<close>

lemma reverseSortDirection_token:
  "\<not> isPlainObject v \<Longrightarrow>
     reverseSortDirection v = (if v = JString ''asc'' then JString ''desc'' else JString ''asc'')"
  by (cases v) simp_all

lemma first_element_filter_Some:
  "first_element (filter P xs) = Some x \<longleftrightarrow>
     (\<exists>i<length xs. xs ! i = x \<and> P x \<and> (\<forall>j<i. \<not> P (xs ! j)))"
proof (induction xs)
  case Nil
  then show ?case by (simp add: first_element_def)
next
  case (Cons a xs)
  show ?case
  proof (cases "P a")
    case True
    have "(\<exists>i<length (a # xs). (a # xs) ! i = x \<and> P x \<and> (\<forall>j<i. \<not> P ((a # xs) ! j))) \<longleftrightarrow> a = x"
    proof
      assume "\<exists>i<length (a # xs). (a # xs) ! i = x \<and> P x \<and> (\<forall>j<i. \<not> P ((a # xs) ! j))"
      then obtain i where i: "(a # xs) ! i = x" "\<forall>j<i. \<not> P ((a # xs) ! j)" by blast
      have "i = 0"
      proof (rule ccontr)
        assume "i \<noteq> 0"
        then have "0 < i" by simp
        with i(2) have "\<not> P ((a # xs) ! 0)" by blast
        with True show False by simp
      qed
      with i(1) show "a = x" by simp
    next
      assume "a = x"
      with True have "(a # xs) ! 0 = x \<and> P x \<and> (\<forall>j<0. \<not> P ((a # xs) ! j))" by simp
      then show "\<exists>i<length (a # xs). (a # xs) ! i = x \<and> P x \<and> (\<forall>j<i. \<not> P ((a # xs) ! j))"
        by (intro exI[of _ 0]) simp
    qed
    with True show ?thesis by (simp add: first_element_def)
  next
    case False
    have "(\<exists>i<length (a # xs). (a # xs) ! i = x \<and> P x \<and> (\<forall>j<i. \<not> P ((a # xs) ! j)))
          \<longleftrightarrow> (\<exists>i<length xs. xs ! i = x \<and> P x \<and> (\<forall>j<i. \<not> P (xs ! j)))"
    proof
      assume "\<exists>i<length (a # xs). (a # xs) ! i = x \<and> P x \<and> (\<forall>j<i. \<not> P ((a # xs) ! j))"
      then obtain i where i: "i < length (a # xs)" "(a # xs) ! i = x" "P x"
        "\<forall>j<i. \<not> P ((a # xs) ! j)" by blast
      from i(2,3) False have "i \<noteq> 0" by (cases i) auto
      then obtain i' where i': "i = Suc i'" by (cases i) auto
      have "\<forall>j<i'. \<not> P (xs ! j)"
      proof (intro allI impI)
        fix j assume "j < i'"
        then have "Suc j < i" using i' by simp
        with i(4) have "\<not> P ((a # xs) ! Suc j)" by blast
        then show "\<not> P (xs ! j)" by simp
      qed
      with i i' show "\<exists>i<length xs. xs ! i = x \<and> P x \<and> (\<forall>j<i. \<not> P (xs ! j))"
        by (intro exI[of _ i']) simp
    next
      assume "\<exists>i<length xs. xs ! i = x \<and> P x \<and> (\<forall>j<i. \<not> P (xs ! j))"
      then obtain i where i: "i < length xs" "xs ! i = x" "P x" "\<forall>j<i. \<not> P (xs ! j)" by blast
      have "\<forall>j<Suc i. \<not> P ((a # xs) ! j)"
      proof (intro allI impI)
        fix j assume j: "j < Suc i"
        show "\<not> P ((a # xs) ! j)"
        proof (cases j)
          case 0
          with False show ?thesis by simp
        next
          case (Suc j')
          with j i(4) show ?thesis by simp
        qed
      qed
      with i show "\<exists>i<length (a # xs). (a # xs) ! i = x \<and> P x \<and> (\<forall>j<i. \<not> P ((a # xs) ! j))"
        by (intro exI[of _ "Suc i"]) simp
    qed
    with False Cons.IH show ?thesis by simp
  qed
qed

lemma first_element_filter_None:
  "first_element (filter P xs) = None \<longleftrightarrow> (\<forall>x\<in>set xs. \<not> P x)"
  by (induction xs) (auto simp: first_element_def)

lemma sortable_test_spec:
  "(includes_str META_FIELD_NAMES n
     \<or> sortable (case fmlookup (byName (fields' ip)) n of None \<Rightarrow> \<lparr>sortable = False\<rparr> | Some f \<Rightarrow> f))
   \<longleftrightarrow> spec_sortable ip n"
  by (cases "fmlookup (byName (fields' ip)) n")
     (auto simp: includes_str_def META_FIELD_NAMES_def spec_sortable_def)

lemma getFirstSortableField_filter:
  "getFirstSortableField ip names = first_element (filter (spec_sortable ip) names)"
  by (simp add: getFirstSortableField_def sortable_test_spec)

section \<open>Copies made by plain assignment\<close>

text \<open>
  \<open>copyOwnProperties\<close> is one plain assignment for each own key of the source, in
  whatever order the keys are visited.
\<close>

lemma copyOwnProperties_plain:
  "''__proto__'' |\<notin>| fmdom source \<Longrightarrow>
     copyOwnProperties source target = (fst target ++\<^sub>f source, snd target)"
  by (simp add: copyOwnProperties_def fmdrop_idle fmdom_notD)

lemma copyOwnProperties_empty:
  "copyOwnProperties fmempty target = target"
  by (simp add: copyOwnProperties_def)

lemma copyOwnProperties_step:
  assumes "key |\<notin>| fmdom source"
  shows "copyOwnProperties (fmupd key val source) target
           = setProperty key val (copyOwnProperties source target)"
proof (cases "key = ''__proto__''")
  case True
  with assms have "fmdrop ''__proto__'' (fmupd key val source) = source"
    by (intro fmap_ext) (auto simp: fmdom_notD)
  with True assms show ?thesis
    by (simp add: copyOwnProperties_plain) (simp add: copyOwnProperties_def setProperty_def)
next
  case False
  have drop: "fmdrop ''__proto__'' (fmupd key val source)
      = fmupd key val (fmdrop ''__proto__'' source)"
    using False by (intro fmap_ext) simp
  have add: "a ++\<^sub>f fmupd key val b = fmupd key val (a ++\<^sub>f b)" for a b :: js_object
    by (rule fmap_ext) simp
  show ?thesis
    using False
    by (cases "fmlookup source ''__proto__''")
       (simp_all add: copyOwnProperties_def setProperty_def drop add Let_def)
qed

text \<open>
  So an own \<^verbatim>\<open>__proto__\<close> key of the object copied from never becomes an own key of
  the copy. Objects without that key are copied as expected.
\<close>

lemma assign_emptyObject_plain:
  assumes "''__proto__'' |\<notin>| fmdom m" and "k \<noteq> ''__proto__''"
  shows "assign emptyObject [m, fmupd k x fmempty] = (fmupd k x m, None)"
proof -
  have "''__proto__'' |\<notin>| fmdom (fmupd k x fmempty)"
    using assms(2) by simp
  moreover have "m ++\<^sub>f fmupd k x fmempty = fmupd k x m"
    by (rule fmap_ext) simp
  ultimately show ?thesis
    using assms(1) by (simp add: assign_def emptyObject_def copyOwnProperties_plain)
qed

lemma reverseSortDirection_object:
  "''__proto__'' |\<notin>| fmdom m \<Longrightarrow>
     reverseSortDirection (JObject m) =
       JObject (fmupd ''order'' (reverseSortDirection (property m ''order'')) m)"
  by (simp add: assign_emptyObject_plain)

lemma mapValues_plain:
  "''__proto__'' |\<notin>| fmdom m \<Longrightarrow> mapValues m f = (fmmap f m, None)"
  by (simp add: mapValues_def emptyObject_def copyOwnProperties_plain)

lemma reverseSortDirective_object_plain:
  "''__proto__'' |\<notin>| fmdom m \<Longrightarrow>
     reverseSortDirective (JObject m) = JObject (fmmap reverseSortDirection m)"
  by (simp add: mapValues_plain)

lemma objectValue_not_string: "objectValue t \<noteq> JString s"
  by (cases t; cases "snd t") auto

lemma reverseSortDirection_twice_token:
  "v = JString ''asc'' \<or> v = JString ''desc'' \<Longrightarrow>
     reverseSortDirection (reverseSortDirection v) = v"
  by auto

lemma copyOwnProperties_proto_primitive:
  "fmlookup source ''__proto__'' = Some v \<Longrightarrow> \<not> isObject v \<Longrightarrow>
     copyOwnProperties source (own, None) = (own ++\<^sub>f fmdrop ''__proto__'' source, None)"
  by (simp add: copyOwnProperties_def setProperty_def Let_def)

lemma reverseSortDirection_not_object:
  "\<not> isPlainObject v \<Longrightarrow> \<not> isObject (reverseSortDirection v)"
  by (cases v) simp_all

lemma own_order_reversed:
  "fmlookup (ownProperties (reverseSortDirection (JObject m))) ''order''
     = Some (reverseSortDirection (property m ''order''))"
proof -
  have "''__proto__'' |\<notin>| fmdom (fmupd ''order'' x fmempty)" for x :: js_value
    by simp
  then have second: "copyOwnProperties (fmupd ''order'' x fmempty) t
      = (fmupd ''order'' x (fst t), snd t)" for x t
    by (simp add: copyOwnProperties_plain)
  obtain own proto where first: "copyOwnProperties m emptyObject = (own, proto)"
    by (cases "copyOwnProperties m emptyObject")
  show ?thesis
    by (cases proto) (simp_all add: assign_def first second)
qed

lemma reverseSortDirection_proto_primitive:
  assumes "fmlookup m ''__proto__'' = Some v" and "\<not> isObject v"
  shows "reverseSortDirection (JObject m) =
     JObject (fmupd ''order'' (reverseSortDirection (property m ''order''))
                (fmdrop ''__proto__'' m))"
proof -
  have first: "copyOwnProperties m (fmempty, None) = (fmdrop ''__proto__'' m, None)"
    using copyOwnProperties_proto_primitive [OF assms, of fmempty] by simp
  have "''__proto__'' |\<notin>| fmdom (fmupd ''order'' x fmempty)" for x :: js_value
    by simp
  then have second: "copyOwnProperties (fmupd ''order'' x fmempty) t
      = (fmupd ''order'' x (fst t), snd t)" for x t
    by (simp add: copyOwnProperties_plain)
  show ?thesis
    by (simp add: assign_def emptyObject_def first second)
qed

section \<open>The recursion and the call stack\<close>

text \<open>
  A call that returns under a bounded stack returns the value of
  \<^verbatim>\<open>reverseSortDirection\<close>. It returns exactly when the chain of nested \<^verbatim>\<open>order\<close>
  objects is shorter than the number of activations that fit, and every value has a
  finite chain.
\<close>

lemma reverseSortDirection_call_sound:
  "reverseSortDirection_call frames v = Inr r \<Longrightarrow> r = reverseSortDirection v"
proof (induction frames arbitrary: v r)
  case 0
  then show ?case by simp
next
  case (Suc frames)
  show ?case
  proof (cases v)
    case (JObject m)
    with Suc.prems obtain x where
      x: "reverseSortDirection_call frames (property m ''order'') = Inr x"
      and r: "r = objectValue (assign emptyObject [m, fmupd ''order'' x fmempty])"
      by (auto split: sum.splits)
    from Suc.IH [OF x] have "x = reverseSortDirection (property m ''order'')" .
    with r JObject show ?thesis by simp
  qed (use Suc.prems in auto)
qed

lemma reverseSortDirection_call_chain:
  "order_chain n v = Some w \<Longrightarrow> \<not> isPlainObject w \<Longrightarrow> n < frames \<Longrightarrow>
     reverseSortDirection_call frames v = Inr (reverseSortDirection v)"
proof (induction n arbitrary: v frames)
  case 0
  then obtain f where "frames = Suc f" by (cases frames) auto
  with 0 show ?case by (cases v) auto
next
  case (Suc n)
  then obtain m where v: "v = JObject m" by (cases v) simp_all
  from Suc.prems obtain f where f: "frames = Suc f" "n < f" by (cases frames) auto
  from Suc.prems v have "order_chain n (property m ''order'') = Some w" by simp
  from Suc.IH [OF this Suc.prems(2) f(2)]
  show ?case by (simp add: v f(1))
qed

lemma reverseSortDirection_call_overflow:
  "order_chain n v = Some w \<Longrightarrow> frames \<le> n \<Longrightarrow>
     reverseSortDirection_call frames v = Inl RangeError"
proof (induction n arbitrary: v frames)
  case 0
  then show ?case by simp
next
  case (Suc n)
  then obtain m where v: "v = JObject m" by (cases v) simp_all
  show ?case
  proof (cases frames)
    case 0
    then show ?thesis by simp
  next
    case (Suc f)
    with Suc.prems v have "order_chain n (property m ''order'') = Some w" "f \<le> n" by simp_all
    from Suc.IH [OF this] show ?thesis by (simp add: v Suc)
  qed
qed

lemma order_chain_ends:
  "\<exists>n w. order_chain n v = Some w \<and> \<not> isPlainObject w"
proof (induction v rule: reverseSortDirection.induct)
  case (1 m)
  then obtain n w where "order_chain n (property m ''order'') = Some w" "\<not> isPlainObject w"
    by blast
  then have "order_chain (Suc n) (JObject m) = Some w \<and> \<not> isPlainObject w" by simp
  then show ?case by blast
qed (rule exI [of _ 0], simp)+

lemma order_chain_nest:
  "order_chain (length ms) (nest ms v) = Some v"
  by (induction ms) (simp_all add: property_def)

lemma reverseSortDirection_nest:
  "\<forall>m\<in>set ms. ''__proto__'' |\<notin>| fmdom m \<Longrightarrow> \<not> isPlainObject v \<Longrightarrow>
     reverseSortDirection (nest ms v) =
       nest ms (if v = JString ''asc'' then JString ''desc'' else JString ''asc'')"
proof (induction ms)
  case Nil
  then show ?case by (simp add: reverseSortDirection_token)
next
  case (Cons m ms)
  have clean: "''__proto__'' |\<notin>| fmdom (fmupd ''order'' (nest ms v) m)"
    using Cons.prems(1) by simp
  have "fmupd ''order'' x (fmupd ''order'' y m) = fmupd ''order'' x m" for x y
    by (rule fmap_ext) simp
  with Cons clean show ?case
    by (simp add: reverseSortDirection_object property_def del: reverseSortDirection.simps)
qed

lemma mapValues_call_ok:
  assumes "\<forall>x\<in>fmran' m. \<exists>r. reverseSortDirection_call frames x = Inr r"
  shows "reverseSortDirective_call frames (JObject m) = Inr (reverseSortDirective (JObject m))"
proof -
  have ok: "fmpred (\<lambda>key val. \<not> isl (reverseSortDirection_call frames val)) m"
  proof (rule fmpredI)
    fix k x assume "fmlookup m k = Some x"
    then have "x \<in> fmran' m" by (rule fmran'I)
    with assms obtain r where "reverseSortDirection_call frames x = Inr r" by blast
    then show "\<not> isl (reverseSortDirection_call frames x)" by simp
  qed
  have "fmmap (\<lambda>val. projr (reverseSortDirection_call frames val)) m = fmmap reverseSortDirection m"
  proof (rule fmap_ext)
    fix k
    show "fmlookup (fmmap (\<lambda>val. projr (reverseSortDirection_call frames val)) m) k
        = fmlookup (fmmap reverseSortDirection m) k"
    proof (cases "fmlookup m k")
      case None
      then show ?thesis by simp
    next
      case (Some x)
      then have "x \<in> fmran' m" by (rule fmran'I)
      with assms obtain r where r: "reverseSortDirection_call frames x = Inr r" by blast
      from reverseSortDirection_call_sound [OF r] r Some show ?thesis by simp
    qed
  qed
  with ok show ?thesis
    by (simp add: mapValues_call_def mapValues_def)
qed

lemma mapValues_call_overflow:
  assumes "x \<in> fmran' m" and "reverseSortDirection_call frames x = Inl RangeError"
  shows "reverseSortDirective_call frames (JObject m) = Inl RangeError"
proof -
  from assms(1) obtain k where "fmlookup m k = Some x" by (auto simp: fmran'_alt_def)
  with assms(2) have "\<not> fmpred (\<lambda>key val. \<not> isl (reverseSortDirection_call frames val)) m"
    by (auto dest: fmpredD)
  then show ?thesis by (simp add: mapValues_call_def)
qed

lemma reverseSortDirection_call_nest_overflow:
  "frames \<le> length ms \<Longrightarrow> reverseSortDirection_call frames (nest ms v) = Inl RangeError"
  using reverseSortDirection_call_overflow [OF order_chain_nest] .

lemma reverseSortDirection_call_nest:
  "\<not> isPlainObject v \<Longrightarrow> length ms < frames \<Longrightarrow>
     reverseSortDirection_call frames (nest ms v) = Inr (reverseSortDirection (nest ms v))"
  using reverseSortDirection_call_chain [OF order_chain_nest] .

section \<open>Selecting the first sortable field\<close>

text \<open>
  C1. For every index pattern and every sequence of candidate names,
  \<^verbatim>\<open>getFirstSortableField\<close> returns the first name of the sequence that is a meta
  field or has a schema entry whose sortable flag is true; when no candidate
  qualifies, the empty sequence included, it returns \<^verbatim>\<open>undefined\<close> (\<open>None\<close>) and
  raises nothing. For a schema with \<open>a\<close> (not sortable) and \<open>b\<close> (sortable) and the
  candidates \<open>a\<close>, \<open>_doc\<close>, \<open>b\<close> the result is \<open>_doc\<close>.
\<close>

theorem getFirstSortableField_first_sortable:
  "(getFirstSortableField ip names = Some n \<longleftrightarrow>
      (\<exists>i<length names. names ! i = n \<and> spec_sortable ip n
         \<and> (\<forall>j<i. \<not> spec_sortable ip (names ! j))))
   \<and> (getFirstSortableField ip names = None \<longleftrightarrow> (\<forall>x\<in>set names. \<not> spec_sortable ip x))
   \<and> getFirstSortableField ip [] = None
   \<and> (fmlookup (byName (fields' ip)) ''a'' = Some \<lparr>sortable = False\<rparr>
        \<and> fmlookup (byName (fields' ip)) ''b'' = Some \<lparr>sortable = True\<rparr>
      \<longrightarrow> getFirstSortableField ip [''a'', ''_doc'', ''b''] = Some ''_doc'')"
proof (intro conjI impI)
  show "getFirstSortableField ip names = Some n \<longleftrightarrow>
      (\<exists>i<length names. names ! i = n \<and> spec_sortable ip n
         \<and> (\<forall>j<i. \<not> spec_sortable ip (names ! j)))"
    unfolding getFirstSortableField_filter by (rule first_element_filter_Some)
  show "getFirstSortableField ip names = None \<longleftrightarrow> (\<forall>x\<in>set names. \<not> spec_sortable ip x)"
    unfolding getFirstSortableField_filter by (rule first_element_filter_None)
  show "getFirstSortableField ip [] = None"
    by (simp add: getFirstSortableField_def first_element_def)
next
  assume "fmlookup (byName (fields' ip)) ''a'' = Some \<lparr>sortable = False\<rparr>
        \<and> fmlookup (byName (fields' ip)) ''b'' = Some \<lparr>sortable = True\<rparr>"
  then show "getFirstSortableField ip [''a'', ''_doc'', ''b''] = Some ''_doc''"
    by (simp add: getFirstSortableField_def first_element_def includes_str_def
        META_FIELD_NAMES_def)
qed

theorem getFirstSortableField_first_sortable_witness:
  "getFirstSortableField
     \<lparr>fields' = \<lparr>byName = fmap_of_list
        [(''a'', \<lparr>sortable = False\<rparr>), (''b'', \<lparr>sortable = True\<rparr>)]\<rparr>\<rparr>
     [''a'', ''_doc'', ''b''] = Some ''_doc''
   \<and> getFirstSortableField
     \<lparr>fields' = \<lparr>byName = fmap_of_list
        [(''a'', \<lparr>sortable = False\<rparr>), (''b'', \<lparr>sortable = True\<rparr>)]\<rparr>\<rparr>
     [''a'', ''c''] = None"
proof -
  let ?ip = "\<lparr>fields' = \<lparr>byName = fmap_of_list
        [(''a'', \<lparr>sortable = False\<rparr>), (''b'', \<lparr>sortable = True\<rparr>)]\<rparr>\<rparr>"
  have entries: "fmlookup (byName (fields' ?ip)) ''a'' = Some \<lparr>sortable = False\<rparr>
        \<and> fmlookup (byName (fields' ?ip)) ''b'' = Some \<lparr>sortable = True\<rparr>"
    by simp
  have none: "\<forall>x\<in>set [''a'', ''c'']. \<not> spec_sortable ?ip x"
    by (simp add: spec_sortable_def)
  from getFirstSortableField_first_sortable [of ?ip "[''a'', ''c'']" "''c''"] entries none
  show ?thesis by blast
qed

text \<open>
  C6. Whatever the schema holds, the three meta field names \<open>_seq_no\<close>, \<open>_doc\<close> and
  \<open>_uid\<close> count as sortable: a meta field at the head of the candidates is the
  result. A candidate that is no meta field and has no schema entry is skipped as not
  sortable, and the missing entry raises nothing.
\<close>

theorem meta_fields_always_sortable:
  "set META_FIELD_NAMES = {''_seq_no'', ''_doc'', ''_uid''}
   \<and> (n \<in> set META_FIELD_NAMES \<longrightarrow> getFirstSortableField ip (n # rest) = Some n)
   \<and> (n \<in> set META_FIELD_NAMES \<and> n \<in> set names \<longrightarrow>
        getFirstSortableField ip names \<noteq> None)
   \<and> (n \<notin> set META_FIELD_NAMES \<and> fmlookup (byName (fields' ip)) n = None \<longrightarrow>
        getFirstSortableField ip (n # rest) = getFirstSortableField ip rest
        \<and> getFirstSortableField ip [n] = None)"
proof (intro conjI impI)
  assume "n \<in> set META_FIELD_NAMES \<and> n \<in> set names"
  then have "n \<in> set names" "spec_sortable ip n"
    by (auto simp: spec_sortable_def META_FIELD_NAMES_def)
  then show "getFirstSortableField ip names \<noteq> None"
    unfolding getFirstSortableField_filter first_element_filter_None by blast
qed (auto simp: getFirstSortableField_def first_element_def includes_str_def
      META_FIELD_NAMES_def)

theorem meta_fields_always_sortable_witness:
  "getFirstSortableField \<lparr>fields' = \<lparr>byName = fmempty\<rparr>\<rparr> [''_seq_no'', ''x''] = Some ''_seq_no''
   \<and> getFirstSortableField \<lparr>fields' = \<lparr>byName = fmempty\<rparr>\<rparr> [''_doc''] = Some ''_doc''
   \<and> getFirstSortableField
        \<lparr>fields' = \<lparr>byName = fmap_of_list [(''_uid'', \<lparr>sortable = False\<rparr>)]\<rparr>\<rparr> [''_uid'']
      = Some ''_uid''
   \<and> getFirstSortableField \<lparr>fields' = \<lparr>byName = fmempty\<rparr>\<rparr> [''x''] = None
   \<and> getFirstSortableField \<lparr>fields' = \<lparr>byName = fmempty\<rparr>\<rparr> [''x'', ''_uid''] = Some ''_uid''"
proof -
  let ?e = "\<lparr>fields' = \<lparr>byName = fmempty\<rparr>\<rparr>"
  let ?u = "\<lparr>fields' = \<lparr>byName = fmap_of_list [(''_uid'', \<lparr>sortable = False\<rparr>)]\<rparr>\<rparr>"
  have m: "''_seq_no'' \<in> set META_FIELD_NAMES" "''_doc'' \<in> set META_FIELD_NAMES"
    "''_uid'' \<in> set META_FIELD_NAMES"
    by (simp_all add: META_FIELD_NAMES_def)
  have x: "''x'' \<notin> set META_FIELD_NAMES \<and> fmlookup (byName (fields' ?e)) ''x'' = None"
    by (simp add: META_FIELD_NAMES_def)
  from m x
    meta_fields_always_sortable [where n = "''_seq_no''" and ip = ?e and rest = "[''x'']"]
    meta_fields_always_sortable [where n = "''_doc''" and ip = ?e and rest = "[]"]
    meta_fields_always_sortable [where n = "''_uid''" and ip = ?u and rest = "[]"]
    meta_fields_always_sortable [where n = "''x''" and ip = ?e and rest = "[]"]
    meta_fields_always_sortable [where n = "''x''" and ip = ?e and rest = "[''_uid'']"]
    meta_fields_always_sortable [where n = "''_uid''" and ip = ?e and rest = "[]"]
  show ?thesis by simp
qed

section \<open>Direction tokens\<close>

text \<open>
  C4. On a value that is not a plain object, \<^verbatim>\<open>reverseSortDirection\<close> returns
  \<^verbatim>\<open>'desc'\<close> exactly when the value is the string \<^verbatim>\<open>'asc'\<close>, and \<^verbatim>\<open>'asc'\<close> for every
  other such value: \<^verbatim>\<open>'desc'\<close>, \<^verbatim>\<open>undefined\<close>, a malformed token. The function is
  total, so this branch always returns.
\<close>

theorem reverseSortDirection_plain_token:
  assumes "\<not> isPlainObject v"
  shows "(reverseSortDirection v = JString ''desc'' \<longleftrightarrow> v = JString ''asc'')
       \<and> (v \<noteq> JString ''asc'' \<longrightarrow> reverseSortDirection v = JString ''asc'')
       \<and> (reverseSortDirection v = JString ''desc'' \<or> reverseSortDirection v = JString ''asc'')"
  using assms by (simp add: reverseSortDirection_token)

theorem reverseSortDirection_plain_token_witness:
  "reverseSortDirection (JString ''asc'') = JString ''desc''
   \<and> reverseSortDirection (JString ''desc'') = JString ''asc''
   \<and> reverseSortDirection JUndefined = JString ''asc''
   \<and> reverseSortDirection (JString ''ascending'') = JString ''asc''
   \<and> reverseSortDirection (JNumber 42) = JString ''asc''"
  using reverseSortDirection_plain_token [of "JString ''asc''"]
    reverseSortDirection_plain_token [of "JString ''desc''"]
    reverseSortDirection_plain_token [of JUndefined]
    reverseSortDirection_plain_token [of "JString ''ascending''"]
    reverseSortDirection_plain_token [of "JNumber 42"]
  by simp

section \<open>Options structures\<close>

text \<open>
  C7. On a plain object that has no own \<^verbatim>\<open>__proto__\<close> key, \<^verbatim>\<open>reverseSortDirection\<close>
  returns a copy whose \<^verbatim>\<open>order\<close> property is the reversal of the original one
  (\<^verbatim>\<open>'desc'\<close> for \<^verbatim>\<open>'asc'\<close>, \<^verbatim>\<open>'asc'\<close> for any other value that is not a plain object)
  and whose every other property is the original's, with its original value. Through
  \<^verbatim>\<open>reverseSortDirective\<close>, \<^verbatim>\<open>{field: {order: 'asc', mode: 'min'}}\<close> becomes
  \<^verbatim>\<open>{field: {order: 'desc', mode: 'min'}}\<close>, and back. An own \<^verbatim>\<open>__proto__\<close> key is a
  key other than \<^verbatim>\<open>order\<close> that is not preserved: the copy made by \<^verbatim>\<open>_.assign\<close> of
  \<^verbatim>\<open>{order: 'asc', mode: 'min', __proto__: 'x'}\<close> is \<^verbatim>\<open>{order: 'desc', mode: 'min'}\<close>.
\<close>

theorem reverseSortDirection_options:
  "(''__proto__'' |\<notin>| fmdom m \<longrightarrow>
      (\<exists>m'. reverseSortDirection (JObject m) = JObject m'
         \<and> fmlookup m' ''order'' = Some (reverseSortDirection (property m ''order''))
         \<and> (\<not> isPlainObject (property m ''order'') \<longrightarrow>
              fmlookup m' ''order''
                = Some (if property m ''order'' = JString ''asc'' then JString ''desc''
                        else JString ''asc''))
         \<and> (\<forall>k. k \<noteq> ''order'' \<longrightarrow> fmlookup m' k = fmlookup m k)
         \<and> fmdom m' = finsert ''order'' (fmdom m)))
   \<and> (field \<noteq> ''__proto__'' \<longrightarrow>
        reverseSortDirective
          (JObject (fmupd field
             (JObject (fmap_of_list [(''order'', JString ''asc''), (''mode'', JString ''min'')]))
             fmempty))
        = JObject (fmupd field
             (JObject (fmap_of_list [(''order'', JString ''desc''), (''mode'', JString ''min'')]))
             fmempty)
        \<and> reverseSortDirective
          (JObject (fmupd field
             (JObject (fmap_of_list [(''order'', JString ''desc''), (''mode'', JString ''min'')]))
             fmempty))
        = JObject (fmupd field
             (JObject (fmap_of_list [(''order'', JString ''asc''), (''mode'', JString ''min'')]))
             fmempty))
   \<and> reverseSortDirection
        (JObject (fmap_of_list
           [(''order'', JString ''asc''), (''mode'', JString ''min''),
            (''__proto__'', JString ''x'')]))
      = JObject (fmap_of_list [(''order'', JString ''desc''), (''mode'', JString ''min'')])"
proof (intro conjI impI)
  assume clean: "''__proto__'' |\<notin>| fmdom m"
  have "reverseSortDirection (JObject m)
      = JObject (fmupd ''order'' (reverseSortDirection (property m ''order'')) m)"
    using clean by (rule reverseSortDirection_object)
  then show "\<exists>m'. reverseSortDirection (JObject m) = JObject m'
         \<and> fmlookup m' ''order'' = Some (reverseSortDirection (property m ''order''))
         \<and> (\<not> isPlainObject (property m ''order'') \<longrightarrow>
              fmlookup m' ''order''
                = Some (if property m ''order'' = JString ''asc'' then JString ''desc''
                        else JString ''asc''))
         \<and> (\<forall>k. k \<noteq> ''order'' \<longrightarrow> fmlookup m' k = fmlookup m k)
         \<and> fmdom m' = finsert ''order'' (fmdom m)"
    by (simp add: reverseSortDirection_token del: reverseSortDirection.simps)
next
  assume field: "field \<noteq> ''__proto__''"
  have asc: "reverseSortDirection
      (JObject (fmap_of_list [(''order'', JString ''asc''), (''mode'', JString ''min'')]))
      = JObject (fmap_of_list [(''order'', JString ''desc''), (''mode'', JString ''min'')])"
  proof -
    have "fmupd ''order'' (JString ''desc'')
          (fmap_of_list [(''order'', JString ''asc''), (''mode'', JString ''min'')])
        = fmap_of_list [(''order'', JString ''desc''), (''mode'', JString ''min'')]"
      by (rule fmap_ext) simp
    then show ?thesis
      by (simp add: reverseSortDirection_object reverseSortDirection_token property_def
          del: reverseSortDirection.simps)
  qed
  have desc: "reverseSortDirection
      (JObject (fmap_of_list [(''order'', JString ''desc''), (''mode'', JString ''min'')]))
      = JObject (fmap_of_list [(''order'', JString ''asc''), (''mode'', JString ''min'')])"
  proof -
    have "fmupd ''order'' (JString ''asc'')
          (fmap_of_list [(''order'', JString ''desc''), (''mode'', JString ''min'')])
        = fmap_of_list [(''order'', JString ''asc''), (''mode'', JString ''min'')]"
      by (rule fmap_ext) simp
    then show ?thesis
      by (simp add: reverseSortDirection_object reverseSortDirection_token property_def
          del: reverseSortDirection.simps)
  qed
  from field asc show "reverseSortDirective
          (JObject (fmupd field
             (JObject (fmap_of_list [(''order'', JString ''asc''), (''mode'', JString ''min'')]))
             fmempty))
        = JObject (fmupd field
             (JObject (fmap_of_list [(''order'', JString ''desc''), (''mode'', JString ''min'')]))
             fmempty)"
    by (simp add: mapValues_plain fmmap_fmupd del: reverseSortDirection.simps)
  from field desc show "reverseSortDirective
          (JObject (fmupd field
             (JObject (fmap_of_list [(''order'', JString ''desc''), (''mode'', JString ''min'')]))
             fmempty))
        = JObject (fmupd field
             (JObject (fmap_of_list [(''order'', JString ''asc''), (''mode'', JString ''min'')]))
             fmempty)"
    by (simp add: mapValues_plain fmmap_fmupd del: reverseSortDirection.simps)
next
  let ?m = "fmap_of_list
           [(''order'', JString ''asc''), (''mode'', JString ''min''),
            (''__proto__'', JString ''x'')]"
  have "fmlookup ?m ''__proto__'' = Some (JString ''x'')" "\<not> isObject (JString ''x'')"
    by simp_all
  then have "reverseSortDirection (JObject ?m) =
     JObject (fmupd ''order'' (reverseSortDirection (property ?m ''order''))
                (fmdrop ''__proto__'' ?m))"
    by (rule reverseSortDirection_proto_primitive)
  moreover have "fmupd ''order'' (reverseSortDirection (property ?m ''order''))
                (fmdrop ''__proto__'' ?m)
      = fmap_of_list [(''order'', JString ''desc''), (''mode'', JString ''min'')]"
    by (rule fmap_ext) (simp add: property_def)
  ultimately show "reverseSortDirection (JObject ?m)
      = JObject (fmap_of_list [(''order'', JString ''desc''), (''mode'', JString ''min'')])"
    by simp
qed

theorem reverseSortDirection_options_witness:
  "reverseSortDirection
     (JObject (fmap_of_list
        [(''order'', JString ''desc''), (''mode'', JString ''min''), (''missing'', JString ''_last'')]))
   = JObject (fmap_of_list
        [(''order'', JString ''asc''), (''mode'', JString ''min''), (''missing'', JString ''_last'')])"
proof -
  let ?opts = "fmap_of_list
        [(''order'', JString ''desc''), (''mode'', JString ''min''), (''missing'', JString ''_last'')]"
  have clean: "''__proto__'' |\<notin>| fmdom ?opts" by simp
  have token: "\<not> isPlainObject (property ?opts ''order'')"
    "property ?opts ''order'' = JString ''desc''"
    by (simp_all add: property_def)
  from reverseSortDirection_options [of ?opts "''f''"] clean
  obtain m' where m': "reverseSortDirection (JObject ?opts) = JObject m'"
    and ord: "\<not> isPlainObject (property ?opts ''order'') \<longrightarrow>
              fmlookup m' ''order''
                = Some (if property ?opts ''order'' = JString ''asc'' then JString ''desc''
                        else JString ''asc'')"
    and rest: "\<forall>k. k \<noteq> ''order'' \<longrightarrow> fmlookup m' k = fmlookup ?opts k"
    by blast
  from ord token have o: "fmlookup m' ''order'' = Some (JString ''asc'')" by simp
  have "m' = fmap_of_list
        [(''order'', JString ''asc''), (''mode'', JString ''min''), (''missing'', JString ''_last'')]"
  proof (rule fmap_ext)
    fix k
    show "fmlookup m' k
        = fmlookup (fmap_of_list
            [(''order'', JString ''asc''), (''mode'', JString ''min''),
             (''missing'', JString ''_last'')]) k"
      using o rest by (cases "k = ''order''") simp_all
  qed
  with m' show ?thesis by simp
qed

text \<open>
  C9. A plain object without an \<^verbatim>\<open>order\<close> property, and without an own
  \<^verbatim>\<open>__proto__\<close> key, is returned by \<^verbatim>\<open>reverseSortDirection\<close> as a copy with
  \<^verbatim>\<open>order: 'asc'\<close> added: the missing value is \<^verbatim>\<open>undefined\<close>, which the token branch
  sends to \<^verbatim>\<open>'asc'\<close>. The result of reversing a plain object always has an own
  \<^verbatim>\<open>order\<close> property. With an own \<^verbatim>\<open>__proto__\<close> key the result is not a copy of the
  object: \<^verbatim>\<open>{__proto__: 'x'}\<close> gives \<^verbatim>\<open>{order: 'asc'}\<close>, without that key.
\<close>

theorem reverseSortDirection_missing_order:
  "(''__proto__'' |\<notin>| fmdom m \<and> fmlookup m ''order'' = None \<longrightarrow>
      property m ''order'' = JUndefined
      \<and> reverseSortDirection JUndefined = JString ''asc''
      \<and> reverseSortDirection (JObject m) = JObject (fmupd ''order'' (JString ''asc'') m))
   \<and> (fmlookup m ''order'' = None \<longrightarrow>
        fmlookup (ownProperties (reverseSortDirection (JObject m))) ''order''
          = Some (JString ''asc''))
   \<and> ''order'' |\<in>| fmdom (ownProperties (reverseSortDirection (JObject m)))
   \<and> reverseSortDirection (JObject (fmupd ''__proto__'' (JString ''x'') fmempty))
        = JObject (fmupd ''order'' (JString ''asc'') fmempty)"
proof (intro conjI impI)
  assume h: "''__proto__'' |\<notin>| fmdom m \<and> fmlookup m ''order'' = None"
  then show "property m ''order'' = JUndefined"
    by (simp add: property_def)
  show "reverseSortDirection JUndefined = JString ''asc''"
    by simp
  from h show "reverseSortDirection (JObject m) = JObject (fmupd ''order'' (JString ''asc'') m)"
    by (simp add: reverseSortDirection_object reverseSortDirection_token property_def
          del: reverseSortDirection.simps)
next
  assume "fmlookup m ''order'' = None"
  then show "fmlookup (ownProperties (reverseSortDirection (JObject m))) ''order''
          = Some (JString ''asc'')"
    by (simp add: own_order_reversed reverseSortDirection_token property_def
          del: reverseSortDirection.simps)
next
  show "''order'' |\<in>| fmdom (ownProperties (reverseSortDirection (JObject m)))"
    by (simp add: fmlookup_dom_iff own_order_reversed del: reverseSortDirection.simps)
next
  let ?m = "fmupd ''__proto__'' (JString ''x'') fmempty"
  have "fmlookup ?m ''__proto__'' = Some (JString ''x'')" "\<not> isObject (JString ''x'')"
    by simp_all
  then have "reverseSortDirection (JObject ?m) =
     JObject (fmupd ''order'' (reverseSortDirection (property ?m ''order''))
                (fmdrop ''__proto__'' ?m))"
    by (rule reverseSortDirection_proto_primitive)
  moreover have "fmdrop ''__proto__'' ?m = fmempty"
    by (rule fmap_ext) simp
  ultimately show "reverseSortDirection (JObject ?m)
        = JObject (fmupd ''order'' (JString ''asc'') fmempty)"
    by (simp add: property_def)
qed

theorem reverseSortDirection_missing_order_witness:
  "reverseSortDirection (JObject (fmupd ''mode'' (JString ''min'') fmempty))
     = JObject (fmupd ''order'' (JString ''asc'') (fmupd ''mode'' (JString ''min'') fmempty))
   \<and> reverseSortDirection (JObject fmempty) = JObject (fmupd ''order'' (JString ''asc'') fmempty)"
proof -
  have "''__proto__'' |\<notin>| fmdom (fmupd ''mode'' (JString ''min'') fmempty)
        \<and> fmlookup (fmupd ''mode'' (JString ''min'') fmempty) ''order'' = None"
    "''__proto__'' |\<notin>| fmdom (fmempty :: js_object)
        \<and> fmlookup (fmempty :: js_object) ''order'' = None"
    by simp_all
  then show ?thesis
    using reverseSortDirection_missing_order [of "fmupd ''mode'' (JString ''min'') fmempty"]
      reverseSortDirection_missing_order [of fmempty]
    by blast
qed

text \<open>
  Depth is bounded by the stack: on an engine whose stack holds at most 20000 nested
  activations, the reversal of a chain of 20000 options objects does not return.
\<close>

theorem reverseSortDirection_deep_chain_counterexample:
  "\<not> (\<exists>frames r. frames \<le> 20000
        \<and> reverseSortDirection_call frames
             (nest (replicate 20000 fmempty) (JString ''asc'')) = Inr r)"
proof
  assume "\<exists>frames r. frames \<le> 20000
        \<and> reverseSortDirection_call frames
             (nest (replicate 20000 fmempty) (JString ''asc'')) = Inr r"
  then obtain frames r where le: "frames \<le> 20000"
    and ok: "reverseSortDirection_call frames
             (nest (replicate 20000 fmempty) (JString ''asc'')) = Inr r"
    by blast
  from le have "frames \<le> length (replicate 20000 (fmempty :: js_object))"
    by (simp only: length_replicate)
  then have "reverseSortDirection_call frames
             (nest (replicate 20000 fmempty) (JString ''asc'')) = Inl RangeError"
    by (rule reverseSortDirection_call_nest_overflow)
  with ok show False by simp
qed

text \<open>
  C10. The reversal reaches nested options structures at every depth that the call
  stack holds, not only depth one. When the \<^verbatim>\<open>order\<close> property of a plain object is
  itself a plain object, that object is reversed by the same rule: a chain of options
  objects without own \<^verbatim>\<open>__proto__\<close> keys comes back with the token at its end
  reversed and everything else in place, so \<^verbatim>\<open>{order: {order: 'asc', mode: 'min'}}\<close>
  becomes \<^verbatim>\<open>{order: {order: 'desc', mode: 'min'}}\<close>. The call returns when the chain
  is shorter than the number of activations that fit on the stack, and throws
  \<^verbatim>\<open>RangeError\<close> otherwise.
\<close>

theorem reverseSortDirection_nested:
  "(''__proto__'' |\<notin>| fmdom m \<and> fmlookup m ''order'' = Some (JObject inner) \<longrightarrow>
      reverseSortDirection (JObject m)
        = JObject (fmupd ''order'' (reverseSortDirection (JObject inner)) m))
   \<and> ((\<forall>m\<in>set ms. ''__proto__'' |\<notin>| fmdom m) \<and> \<not> isPlainObject v \<longrightarrow>
        reverseSortDirection (nest ms v)
          = nest ms (if v = JString ''asc'' then JString ''desc'' else JString ''asc''))
   \<and> (\<not> isPlainObject v \<and> length ms < frames \<longrightarrow>
        reverseSortDirection_call frames (nest ms v) = Inr (reverseSortDirection (nest ms v)))
   \<and> (frames \<le> length ms \<longrightarrow>
        reverseSortDirection_call frames (nest ms v) = Inl RangeError)
   \<and> reverseSortDirection
        (JObject (fmupd ''order''
           (JObject (fmap_of_list [(''order'', JString ''asc''), (''mode'', JString ''min'')]))
           fmempty))
      = JObject (fmupd ''order''
           (JObject (fmap_of_list [(''order'', JString ''desc''), (''mode'', JString ''min'')]))
           fmempty)
   \<and> reverseSortDirection
        (JObject (fmupd ''order''
           (JObject (fmap_of_list [(''order'', JString ''desc''), (''mode'', JString ''min'')]))
           fmempty))
      = JObject (fmupd ''order''
           (JObject (fmap_of_list [(''order'', JString ''asc''), (''mode'', JString ''min'')]))
           fmempty)"
proof (intro conjI impI)
  assume "''__proto__'' |\<notin>| fmdom m \<and> fmlookup m ''order'' = Some (JObject inner)"
  then show "reverseSortDirection (JObject m)
        = JObject (fmupd ''order'' (reverseSortDirection (JObject inner)) m)"
    by (simp add: reverseSortDirection_object property_def del: reverseSortDirection.simps)
next
  assume "(\<forall>m\<in>set ms. ''__proto__'' |\<notin>| fmdom m) \<and> \<not> isPlainObject v"
  then show "reverseSortDirection (nest ms v)
          = nest ms (if v = JString ''asc'' then JString ''desc'' else JString ''asc'')"
    by (simp add: reverseSortDirection_nest del: reverseSortDirection.simps)
next
  assume "\<not> isPlainObject v \<and> length ms < frames"
  then show "reverseSortDirection_call frames (nest ms v)
      = Inr (reverseSortDirection (nest ms v))"
    by (simp add: reverseSortDirection_call_nest del: reverseSortDirection.simps)
next
  assume "frames \<le> length ms"
  then show "reverseSortDirection_call frames (nest ms v) = Inl RangeError"
    by (rule reverseSortDirection_call_nest_overflow)
next
  let ?lvl = "\<lambda>d. fmupd ''mode'' (JString ''min'') fmempty :: js_object"
  have shape: "JObject (fmupd ''order''
           (JObject (fmap_of_list [(''order'', t), (''mode'', JString ''min'')]))
           fmempty)
      = nest [fmempty, fmupd ''mode'' (JString ''min'') fmempty] t" for t
  proof -
    have "fmap_of_list [(''order'', t), (''mode'', JString ''min'')]
        = fmupd ''order'' t (fmupd ''mode'' (JString ''min'') fmempty)"
      by (rule fmap_ext) simp
    then show ?thesis by simp
  qed
  have clean: "\<forall>m\<in>set [fmempty, fmupd ''mode'' (JString ''min'') fmempty].
      ''__proto__'' |\<notin>| fmdom m"
    by simp
  show "reverseSortDirection
        (JObject (fmupd ''order''
           (JObject (fmap_of_list [(''order'', JString ''asc''), (''mode'', JString ''min'')]))
           fmempty))
      = JObject (fmupd ''order''
           (JObject (fmap_of_list [(''order'', JString ''desc''), (''mode'', JString ''min'')]))
           fmempty)"
    unfolding shape using reverseSortDirection_nest [OF clean, of "JString ''asc''"] by simp
  show "reverseSortDirection
        (JObject (fmupd ''order''
           (JObject (fmap_of_list [(''order'', JString ''desc''), (''mode'', JString ''min'')]))
           fmempty))
      = JObject (fmupd ''order''
           (JObject (fmap_of_list [(''order'', JString ''asc''), (''mode'', JString ''min'')]))
           fmempty)"
    unfolding shape using reverseSortDirection_nest [OF clean, of "JString ''desc''"] by simp
qed

theorem reverseSortDirection_nested_witness:
  "reverseSortDirection
     (nest [fmupd ''mode'' (JString ''max'') fmempty, fmempty, fmempty] (JString ''desc''))
   = nest [fmupd ''mode'' (JString ''max'') fmempty, fmempty, fmempty] (JString ''asc'')
   \<and> reverseSortDirection_call 4
     (nest [fmupd ''mode'' (JString ''max'') fmempty, fmempty, fmempty] (JString ''desc''))
   = Inr (nest [fmupd ''mode'' (JString ''max'') fmempty, fmempty, fmempty] (JString ''asc''))
   \<and> reverseSortDirection_call 3
     (nest [fmupd ''mode'' (JString ''max'') fmempty, fmempty, fmempty] (JString ''desc''))
   = Inl RangeError"
proof -
  let ?ms = "[fmupd ''mode'' (JString ''max'') fmempty, fmempty, fmempty :: js_object]"
  have clean: "(\<forall>m\<in>set ?ms. ''__proto__'' |\<notin>| fmdom m) \<and> \<not> isPlainObject (JString ''desc'')"
    by simp
  have fits: "\<not> isPlainObject (JString ''desc'') \<and> length ?ms < 4"
    by simp
  have over: "3 \<le> length ?ms"
    by simp
  from reverseSortDirection_nested [of fmempty fmempty ?ms "JString ''desc''" 4] clean fits
  have a: "reverseSortDirection (nest ?ms (JString ''desc'')) = nest ?ms (JString ''asc'')"
    and b: "reverseSortDirection_call 4 (nest ?ms (JString ''desc''))
      = Inr (reverseSortDirection (nest ?ms (JString ''desc'')))"
    by simp_all
  from reverseSortDirection_nested [of fmempty fmempty ?ms "JString ''desc''" 3] over
  have c: "reverseSortDirection_call 3 (nest ?ms (JString ''desc'')) = Inl RangeError"
    by blast
  from a b c show ?thesis by (simp only:)
qed

section \<open>Sort directives\<close>

text \<open>
  C3. A directive in string form is reversed into an object with the field name as
  its only key: the direction under it is \<^verbatim>\<open>'desc'\<close> for every field name but
  \<^verbatim>\<open>'_score'\<close>, and \<^verbatim>\<open>'asc'\<close> for \<^verbatim>\<open>'_score'\<close>.
\<close>

theorem reverseSortDirective_string:
  "\<exists>m. reverseSortDirective (JString name) = JObject m
       \<and> fmdom m = {|name|}
       \<and> fmlookup m name = Some (JString (if name = ''_score'' then ''asc'' else ''desc''))"
  by simp

theorem reverseSortDirective_string_witness:
  "reverseSortDirective (JString ''@timestamp'')
     = JObject (fmupd ''@timestamp'' (JString ''desc'') fmempty)
   \<and> reverseSortDirective (JString ''_score'')
     = JObject (fmupd ''_score'' (JString ''asc'') fmempty)"
  using reverseSortDirective_string [of "''@timestamp''"]
    reverseSortDirective_string [of "''_score''"]
  by simp

text \<open>
  C5. A directive in object form that has no own \<^verbatim>\<open>__proto__\<close> key, with no key, one
  key or several, is reversed into an object with the same keys, each value being
  \<^verbatim>\<open>reverseSortDirection\<close> of the original value. So \<^verbatim>\<open>{field: 'asc'}\<close> becomes
  \<^verbatim>\<open>{field: 'desc'}\<close> and \<^verbatim>\<open>{field: 'desc'}\<close> becomes \<^verbatim>\<open>{field: 'asc'}\<close>. An own
  \<^verbatim>\<open>__proto__\<close> key whose value is not a plain object is lost in the copy made by
  \<^verbatim>\<open>_.mapValues\<close>: \<^verbatim>\<open>{__proto__: 'asc'}\<close> is reversed into \<^verbatim>\<open>{}\<close>.
\<close>

theorem reverseSortDirective_object:
  "(''__proto__'' |\<notin>| fmdom m \<longrightarrow>
      (\<exists>m'. reverseSortDirective (JObject m) = JObject m'
         \<and> fmdom m' = fmdom m
         \<and> (\<forall>k. fmlookup m' k = map_option reverseSortDirection (fmlookup m k))))
   \<and> (field \<noteq> ''__proto__'' \<longrightarrow>
        reverseSortDirective (JObject (fmupd field (JString ''asc'') fmempty))
          = JObject (fmupd field (JString ''desc'') fmempty)
        \<and> reverseSortDirective (JObject (fmupd field (JString ''desc'') fmempty))
          = JObject (fmupd field (JString ''asc'') fmempty))
   \<and> reverseSortDirective (JObject fmempty) = JObject fmempty
   \<and> (fmlookup m ''__proto__'' = Some v \<and> \<not> isPlainObject v \<longrightarrow>
        reverseSortDirective (JObject m)
          = JObject (fmmap reverseSortDirection (fmdrop ''__proto__'' m)))
   \<and> reverseSortDirective (JObject (fmupd ''__proto__'' (JString ''asc'') fmempty))
        = JObject fmempty"
proof (intro conjI impI)
  assume "''__proto__'' |\<notin>| fmdom m"
  then have "reverseSortDirective (JObject m) = JObject (fmmap reverseSortDirection m)"
    by (rule reverseSortDirective_object_plain)
  then show "\<exists>m'. reverseSortDirective (JObject m) = JObject m'
         \<and> fmdom m' = fmdom m
         \<and> (\<forall>k. fmlookup m' k = map_option reverseSortDirection (fmlookup m k))"
    by simp
next
  assume "field \<noteq> ''__proto__''"
  then show "reverseSortDirective (JObject (fmupd field (JString ''asc'') fmempty))
          = JObject (fmupd field (JString ''desc'') fmempty)"
    and "reverseSortDirective (JObject (fmupd field (JString ''desc'') fmempty))
          = JObject (fmupd field (JString ''asc'') fmempty)"
    by (simp_all add: mapValues_plain fmmap_fmupd)
next
  show "reverseSortDirective (JObject fmempty) = JObject fmempty"
    by (simp add: mapValues_plain)
next
  assume h: "fmlookup m ''__proto__'' = Some v \<and> \<not> isPlainObject v"
  then have "fmlookup (fmmap reverseSortDirection m) ''__proto__'' = Some (reverseSortDirection v)"
    and "\<not> isObject (reverseSortDirection v)"
    by (simp_all add: reverseSortDirection_not_object)
  then have "copyOwnProperties (fmmap reverseSortDirection m) (fmempty, None)
      = (fmempty ++\<^sub>f fmdrop ''__proto__'' (fmmap reverseSortDirection m), None)"
    by (rule copyOwnProperties_proto_primitive)
  then show "reverseSortDirective (JObject m)
          = JObject (fmmap reverseSortDirection (fmdrop ''__proto__'' m))"
    by (simp add: mapValues_def emptyObject_def)
next
  have "fmlookup (fmupd ''__proto__'' (JString ''desc'') fmempty) ''__proto__''
      = Some (JString ''desc'')" "\<not> isObject (JString ''desc'')"
    by simp_all
  then have "copyOwnProperties (fmupd ''__proto__'' (JString ''desc'') fmempty) (fmempty, None)
      = (fmempty ++\<^sub>f fmdrop ''__proto__'' (fmupd ''__proto__'' (JString ''desc'') fmempty), None)"
    by (rule copyOwnProperties_proto_primitive)
  moreover have "fmdrop ''__proto__'' (fmupd ''__proto__'' (JString ''desc'') fmempty) = fmempty"
    by (rule fmap_ext) simp
  ultimately show "reverseSortDirective (JObject (fmupd ''__proto__'' (JString ''asc'') fmempty))
        = JObject fmempty"
    by (simp add: mapValues_def emptyObject_def fmmap_fmupd)
qed

theorem reverseSortDirective_object_witness:
  "reverseSortDirective
     (JObject (fmap_of_list [(''a'', JString ''asc''), (''b'', JString ''desc''), (''c'', JNull)]))
   = JObject (fmap_of_list
       [(''a'', JString ''desc''), (''b'', JString ''asc''), (''c'', JString ''asc'')])
   \<and> reverseSortDirective
     (JObject (fmap_of_list [(''a'', JString ''asc''), (''__proto__'', JString ''asc'')]))
   = JObject (fmap_of_list [(''a'', JString ''desc'')])"
proof -
  let ?m = "fmap_of_list [(''a'', JString ''asc''), (''b'', JString ''desc''), (''c'', JNull)]"
  let ?p = "fmap_of_list [(''a'', JString ''asc''), (''__proto__'', JString ''asc'')]"
  have "''__proto__'' |\<notin>| fmdom ?m" by simp
  with reverseSortDirective_object [of ?m "''a''" JNull]
  obtain m' where m': "reverseSortDirective (JObject ?m) = JObject m'"
    and look: "\<forall>k. fmlookup m' k = map_option reverseSortDirection (fmlookup ?m k)"
    by blast
  have "m' = fmap_of_list
      [(''a'', JString ''desc''), (''b'', JString ''asc''), (''c'', JString ''asc'')]"
    by (rule fmap_ext) (simp add: look)
  with m' have first: "reverseSortDirective (JObject ?m) = JObject (fmap_of_list
       [(''a'', JString ''desc''), (''b'', JString ''asc''), (''c'', JString ''asc'')])"
    by simp
  have "fmlookup ?p ''__proto__'' = Some (JString ''asc'') \<and> \<not> isPlainObject (JString ''asc'')"
    by simp
  with reverseSortDirective_object [of ?p "''a''" "JString ''asc''"]
  have "reverseSortDirective (JObject ?p)
      = JObject (fmmap reverseSortDirection (fmdrop ''__proto__'' ?p))"
    by blast
  moreover have "fmmap reverseSortDirection (fmdrop ''__proto__'' ?p)
      = fmap_of_list [(''a'', JString ''desc'')]"
    by (rule fmap_ext) simp
  ultimately show ?thesis using first by simp
qed

text \<open>
  Not every input has an output: on an engine whose stack holds at most 20000 nested
  activations, \<^verbatim>\<open>reverseSortDirective\<close> does not return on a directive whose value is
  a chain of 20000 options objects.
\<close>

theorem reverseSortDirective_deep_chain_counterexample:
  "\<not> (\<exists>frames r. frames \<le> 20000
        \<and> reverseSortDirective_call frames
             (JObject (fmupd ''@timestamp''
                (nest (replicate 20000 fmempty) (JString ''asc'')) fmempty)) = Inr r)"
proof
  assume "\<exists>frames r. frames \<le> 20000
        \<and> reverseSortDirective_call frames
             (JObject (fmupd ''@timestamp''
                (nest (replicate 20000 fmempty) (JString ''asc'')) fmempty)) = Inr r"
  then obtain frames r where le: "frames \<le> 20000"
    and ok: "reverseSortDirective_call frames
             (JObject (fmupd ''@timestamp''
                (nest (replicate 20000 fmempty) (JString ''asc'')) fmempty)) = Inr r"
    by blast
  define deep where "deep = nest (replicate 20000 fmempty) (JString ''asc'')"
  from le have "frames \<le> length (replicate 20000 (fmempty :: js_object))"
    by (simp only: length_replicate)
  then have "reverseSortDirection_call frames deep = Inl RangeError"
    unfolding deep_def by (rule reverseSortDirection_call_nest_overflow)
  moreover have "deep \<in> fmran' (fmupd ''@timestamp'' deep fmempty)"
    by (rule fmran'I [of _ "''@timestamp''"]) simp
  ultimately have "reverseSortDirective_call frames (JObject (fmupd ''@timestamp'' deep fmempty))
      = Inl RangeError"
    by (rule mapValues_call_overflow [rotated])
  with ok show False unfolding deep_def by simp
qed

text \<open>
  C8. A value that is neither a string nor a plain object (\<^verbatim>\<open>null\<close>, a number, an
  array) is returned by \<^verbatim>\<open>reverseSortDirective\<close> as it is, whatever the stack. A
  string is always reversed. \<^verbatim>\<open>reverseSortDirection\<close> returns whenever the chain of
  nested \<^verbatim>\<open>order\<close> objects in its argument is shorter than the number of
  activations that fit on the call stack, and throws \<^verbatim>\<open>RangeError\<close> when it is not;
  every value has a finite chain. \<^verbatim>\<open>reverseSortDirective\<close> on a plain object returns
  when the reversal of each value returns, and throws when one of them throws.
\<close>

theorem reverseSortDirective_pass_through:
  "(\<not> isString v \<and> \<not> isPlainObject v \<longrightarrow>
      reverseSortDirective v = v \<and> reverseSortDirective_call frames v = Inr v)
   \<and> reverseSortDirective JNull = JNull
   \<and> reverseSortDirective (JNumber i) = JNumber i
   \<and> reverseSortDirective (JArray xs) = JArray xs
   \<and> reverseSortDirective_call frames (JString s) = Inr (reverseSortDirective (JString s))
   \<and> (\<exists>n w. order_chain n v = Some w \<and> \<not> isPlainObject w)
   \<and> (order_chain n v = Some w \<and> \<not> isPlainObject w \<and> n < frames \<longrightarrow>
        reverseSortDirection_call frames v = Inr (reverseSortDirection v))
   \<and> (order_chain n v = Some w \<and> frames \<le> n \<longrightarrow>
        reverseSortDirection_call frames v = Inl RangeError)
   \<and> ((\<forall>x\<in>fmran' m. \<exists>r. reverseSortDirection_call frames x = Inr r) \<longrightarrow>
        reverseSortDirective_call frames (JObject m) = Inr (reverseSortDirective (JObject m)))
   \<and> ((\<exists>x\<in>fmran' m. reverseSortDirection_call frames x = Inl RangeError) \<longrightarrow>
        reverseSortDirective_call frames (JObject m) = Inl RangeError)"
proof (intro conjI impI)
  assume "\<not> isString v \<and> \<not> isPlainObject v"
  then show "reverseSortDirective v = v" "reverseSortDirective_call frames v = Inr v"
    by (cases v; simp)+
next
  show "\<exists>n w. order_chain n v = Some w \<and> \<not> isPlainObject w"
    by (rule order_chain_ends)
next
  assume "order_chain n v = Some w \<and> \<not> isPlainObject w \<and> n < frames"
  then show "reverseSortDirection_call frames v = Inr (reverseSortDirection v)"
    using reverseSortDirection_call_chain by blast
next
  assume "order_chain n v = Some w \<and> frames \<le> n"
  then show "reverseSortDirection_call frames v = Inl RangeError"
    using reverseSortDirection_call_overflow by blast
next
  assume "\<forall>x\<in>fmran' m. \<exists>r. reverseSortDirection_call frames x = Inr r"
  then show "reverseSortDirective_call frames (JObject m) = Inr (reverseSortDirective (JObject m))"
    by (rule mapValues_call_ok)
next
  assume "\<exists>x\<in>fmran' m. reverseSortDirection_call frames x = Inl RangeError"
  then show "reverseSortDirective_call frames (JObject m) = Inl RangeError"
    using mapValues_call_overflow by blast
qed simp_all

theorem reverseSortDirective_pass_through_witness:
  "reverseSortDirective JUndefined = JUndefined
   \<and> reverseSortDirective (JBoolean True) = JBoolean True
   \<and> reverseSortDirective (JOtherObject 0) = JOtherObject 0
   \<and> reverseSortDirective_call 0 (JArray [JNumber 1]) = Inr (JArray [JNumber 1])
   \<and> reverseSortDirection_call 2 (JObject (fmupd ''order'' (JString ''asc'') fmempty))
       = Inr (JObject (fmupd ''order'' (JString ''desc'') fmempty))
   \<and> reverseSortDirection_call 1 (JObject (fmupd ''order'' (JString ''asc'') fmempty))
       = Inl RangeError"
proof -
  let ?o = "JObject (fmupd ''order'' (JString ''asc'') fmempty)"
  have chain: "order_chain 1 ?o = Some (JString ''asc'')"
    by (simp add: property_def)
  have "order_chain 1 ?o = Some (JString ''asc'') \<and> \<not> isPlainObject (JString ''asc'') \<and> (1::nat) < 2"
    using chain by simp
  with reverseSortDirective_pass_through [of ?o 2 0 "[]" "''s''" 1 "JString ''asc''" fmempty]
  have fits: "reverseSortDirection_call 2 ?o = Inr (reverseSortDirection ?o)"
    by blast
  have "order_chain 1 ?o = Some (JString ''asc'') \<and> (1::nat) \<le> 1"
    using chain by simp
  with reverseSortDirective_pass_through [of ?o 1 0 "[]" "''s''" 1 "JString ''asc''" fmempty]
  have over: "reverseSortDirection_call 1 ?o = Inl RangeError"
    by blast
  have rev: "reverseSortDirection ?o = JObject (fmupd ''order'' (JString ''desc'') fmempty)"
    by (simp add: reverseSortDirection_object reverseSortDirection_token property_def
        del: reverseSortDirection.simps)
  from fits over rev
    reverseSortDirective_pass_through [of JUndefined 0 0 "[]" "''s''" 0 JUndefined fmempty]
    reverseSortDirective_pass_through [of "JBoolean True" 0 0 "[]" "''s''" 0 JUndefined fmempty]
    reverseSortDirective_pass_through [of "JOtherObject 0" 0 0 "[]" "''s''" 0 JUndefined fmempty]
    reverseSortDirective_pass_through [of "JArray [JNumber 1]" 0 0 "[]" "''s''" 0 JUndefined fmempty]
  show ?thesis by simp
qed

text \<open>
  The score field is not the only string that does not round-trip: the bare field name
  \<^verbatim>\<open>'@timestamp'\<close> does not come back from two reversals either.
\<close>

theorem reverseSortDirective_string_round_trip_counterexample:
  "reverseSortDirective (reverseSortDirective (JString ''@timestamp''))
     = JObject (fmupd ''@timestamp'' (JString ''asc'') fmempty)
   \<and> reverseSortDirective (reverseSortDirective (JString ''@timestamp''))
     \<noteq> JString ''@timestamp''"
  by (simp add: mapValues_plain fmmap_fmupd)

text \<open>
  C2. An object-form directive without an own \<^verbatim>\<open>__proto__\<close> key whose values are each
  one of the two direction tokens is returned unchanged by two applications of
  \<^verbatim>\<open>reverseSortDirective\<close>. No string-form directive is: the first application turns
  a bare field name into an object, so two applications give an object, never the
  string. For a name other than \<^verbatim>\<open>__proto__\<close> that object is \<^verbatim>\<open>{name: 'asc'}\<close>, and
  \<^verbatim>\<open>{_score: 'desc'}\<close> for the score field.
\<close>

theorem reverseSortDirective_involution:
  "(''__proto__'' |\<notin>| fmdom m \<and> fmran' m \<subseteq> {JString ''asc'', JString ''desc''} \<longrightarrow>
      reverseSortDirective (reverseSortDirective (JObject m)) = JObject m)
   \<and> reverseSortDirective (reverseSortDirective (JString s)) \<noteq> JString s
   \<and> (s \<noteq> ''__proto__'' \<longrightarrow>
        reverseSortDirective (reverseSortDirective (JString s))
          = JObject (fmupd s (if s = ''_score'' then JString ''desc'' else JString ''asc'')
              fmempty))
   \<and> reverseSortDirective (reverseSortDirective (JString ''_score''))
        = JObject (fmupd ''_score'' (JString ''desc'') fmempty)"
proof (intro conjI impI)
  assume h: "''__proto__'' |\<notin>| fmdom m \<and> fmran' m \<subseteq> {JString ''asc'', JString ''desc''}"
  then have clean: "''__proto__'' |\<notin>| fmdom m"
    and tokens: "fmran' m \<subseteq> {JString ''asc'', JString ''desc''}"
    by simp_all
  have "fmmap reverseSortDirection (fmmap reverseSortDirection m) = m"
  proof (rule fmap_ext)
    fix k
    show "fmlookup (fmmap reverseSortDirection (fmmap reverseSortDirection m)) k = fmlookup m k"
    proof (cases "fmlookup m k")
      case None
      then show ?thesis by simp
    next
      case (Some v)
      then have "v \<in> fmran' m" by (rule fmran'I)
      with tokens have "v = JString ''asc'' \<or> v = JString ''desc''" by blast
      then have "reverseSortDirection (reverseSortDirection v) = v"
        by (rule reverseSortDirection_twice_token)
      with Some show ?thesis by simp
    qed
  qed
  moreover from clean have "''__proto__'' |\<notin>| fmdom (fmmap reverseSortDirection m)"
    by simp
  ultimately show "reverseSortDirective (reverseSortDirective (JObject m)) = JObject m"
    using clean by (simp add: mapValues_plain)
next
  show "reverseSortDirective (reverseSortDirective (JString s)) \<noteq> JString s"
    by (simp add: objectValue_not_string)
next
  assume "s \<noteq> ''__proto__''"
  then show "reverseSortDirective (reverseSortDirective (JString s))
          = JObject (fmupd s (if s = ''_score'' then JString ''desc'' else JString ''asc'')
              fmempty)"
    by (simp add: mapValues_plain fmmap_fmupd)
next
  show "reverseSortDirective (reverseSortDirective (JString ''_score''))
        = JObject (fmupd ''_score'' (JString ''desc'') fmempty)"
    by (simp add: mapValues_plain fmmap_fmupd)
qed

theorem reverseSortDirective_involution_witness:
  "reverseSortDirective (reverseSortDirective
      (JObject (fmap_of_list [(''@timestamp'', JString ''desc''), (''_doc'', JString ''asc'')])))
    = JObject (fmap_of_list [(''@timestamp'', JString ''desc''), (''_doc'', JString ''asc'')])
   \<and> reverseSortDirective (reverseSortDirective (JObject fmempty)) = JObject fmempty
   \<and> reverseSortDirective (reverseSortDirective (JString ''bytes''))
    = JObject (fmupd ''bytes'' (JString ''asc'') fmempty)"
proof -
  have "''__proto__'' |\<notin>|
          fmdom (fmap_of_list [(''@timestamp'', JString ''desc''), (''_doc'', JString ''asc'')])
        \<and> fmran' (fmap_of_list [(''@timestamp'', JString ''desc''), (''_doc'', JString ''asc'')])
          \<subseteq> {JString ''asc'', JString ''desc''}"
    by (auto simp: fmran'_alt_def split: if_splits)
  moreover have "''__proto__'' |\<notin>| fmdom (fmempty :: js_object)
        \<and> fmran' (fmempty :: js_object) \<subseteq> {JString ''asc'', JString ''desc''}"
    by (simp add: fmran'_alt_def)
  moreover have "''bytes'' \<noteq> ''__proto__''" by simp
  ultimately show ?thesis
    using reverseSortDirective_involution
      [of "fmap_of_list [(''@timestamp'', JString ''desc''), (''_doc'', JString ''asc'')]"
          "''bytes''"]
      reverseSortDirective_involution [of fmempty "''bytes''"]
    by simp
qed

end
